theory Spec2Isabelle
  imports Main "HOL-Library.Word"
begin

unbundle bit_operations_syntax

section \<open>SGR attributes (ansi/types.ts, SgrComposer.ts)\<close>

text \<open>
  \<^verbatim>\<open>SgrAttributes\<close> is an object whose ten keys are all optional. A key that is present
  always carries a defined value (the composer only ever assigns numbers and booleans and
  removes a key with \<^verbatim>\<open>delete\<close>), so every key is an \<open>option\<close>: \<open>None\<close> is "key absent",
  \<open>Some False\<close> is "explicitly switched off". Numbers are modelled as \<open>int\<close>; the bitwise
  operators of the source work on the 32-bit two's complement reading of their operands,
  which is written out with \<open>32 word\<close>. The key \<^verbatim>\<open>inverse\<close> is called \<open>inverse_attr\<close>
  because \<open>inverse\<close> is a constant of HOL.
\<close>

record SgrAttributes =
  fg :: "int option"
  bg :: "int option"
  bold :: "bool option"
  dim :: "bool option"
  italic :: "bool option"
  underline :: "bool option"
  blink :: "bool option"
  inverse_attr :: "bool option"
  hidden :: "bool option"
  strikethrough :: "bool option"

text \<open>The object literal \<^verbatim>\<open>{}\<close>.\<close>

definition sgr_empty :: SgrAttributes where
  "sgr_empty = \<lparr>fg = None, bg = None, bold = None, dim = None, italic = None,
     underline = None, blink = None, inverse_attr = None, hidden = None,
     strikethrough = None\<rparr>"

text \<open>\<^verbatim>\<open>(r << 16) | (g << 8) | b | 0x1000000\<close> on JavaScript numbers: each operand is
  first reduced to 32 bits, the result is read back as a signed 32-bit integer.\<close>

definition rgb_pack :: "int \<Rightarrow> int \<Rightarrow> int \<Rightarrow> int" where
  "rgb_pack r g b =
     sint (push_bit 16 (word_of_int r :: 32 word) OR push_bit 8 (word_of_int g)
           OR word_of_int b OR 0x1000000)"

text \<open>\<^verbatim>\<open>params[i + k]\<close> read from the part of the array that follows position \<open>i\<close>:
  \<open>None\<close> is JavaScript's \<^verbatim>\<open>undefined\<close> for a read past the end.\<close>

definition param_at :: "int list \<Rightarrow> nat \<Rightarrow> int option" where
  "param_at ps k = (if k < length ps then Some (ps ! k) else None)"

text \<open>
  One round of the \<^verbatim>\<open>while\<close> loop of \<^verbatim>\<open>SgrComposer.parse\<close> for a parameter \<open>p \<noteq> 0\<close>
  at index \<open>i\<close>; \<open>rest\<close> is \<^verbatim>\<open>params[i+1..]\<close>. The result is the updated record and the
  amount added to \<open>i\<close> inside the branch (2 or 4 for an extended colour), before the
  final \<^verbatim>\<open>i++\<close>.
\<close>

definition parse_step :: "int \<Rightarrow> int list \<Rightarrow> SgrAttributes \<Rightarrow> SgrAttributes \<times> nat" where
  "parse_step p rest attrs =
     (if p = 1 then (attrs\<lparr>bold := Some True\<rparr>, 0)
      else if p = 2 then (attrs\<lparr>dim := Some True\<rparr>, 0)
      else if p = 3 then (attrs\<lparr>italic := Some True\<rparr>, 0)
      else if p = 4 then (attrs\<lparr>underline := Some True\<rparr>, 0)
      else if p = 5 then (attrs\<lparr>blink := Some True\<rparr>, 0)
      else if p = 7 then (attrs\<lparr>inverse_attr := Some True\<rparr>, 0)
      else if p = 8 then (attrs\<lparr>hidden := Some True\<rparr>, 0)
      else if p = 9 then (attrs\<lparr>strikethrough := Some True\<rparr>, 0)
      else if p = 22 then (attrs\<lparr>bold := Some False, dim := Some False\<rparr>, 0)
      else if p = 23 then (attrs\<lparr>italic := Some False\<rparr>, 0)
      else if p = 24 then (attrs\<lparr>underline := Some False\<rparr>, 0)
      else if p = 25 then (attrs\<lparr>blink := Some False\<rparr>, 0)
      else if p = 27 then (attrs\<lparr>inverse_attr := Some False\<rparr>, 0)
      else if p = 28 then (attrs\<lparr>hidden := Some False\<rparr>, 0)
      else if p = 29 then (attrs\<lparr>strikethrough := Some False\<rparr>, 0)
      else if 30 \<le> p \<and> p \<le> 37 then (attrs\<lparr>fg := Some (p - 30)\<rparr>, 0)
      else if p = 38 then
        (if param_at rest 0 = Some 5 \<and> param_at rest 1 \<noteq> None then
           (attrs\<lparr>fg := param_at rest 1\<rparr>, 2)
         else if param_at rest 0 = Some 2 \<and> param_at rest 3 \<noteq> None then
           (attrs\<lparr>fg := Some (rgb_pack (rest ! 1) (rest ! 2) (rest ! 3))\<rparr>, 4)
         else (attrs, 0))
      else if p = 39 then (attrs\<lparr>fg := None\<rparr>, 0)
      else if 40 \<le> p \<and> p \<le> 47 then (attrs\<lparr>bg := Some (p - 40)\<rparr>, 0)
      else if p = 48 then
        (if param_at rest 0 = Some 5 \<and> param_at rest 1 \<noteq> None then
           (attrs\<lparr>bg := param_at rest 1\<rparr>, 2)
         else if param_at rest 0 = Some 2 \<and> param_at rest 3 \<noteq> None then
           (attrs\<lparr>bg := Some (rgb_pack (rest ! 1) (rest ! 2) (rest ! 3))\<rparr>, 4)
         else (attrs, 0))
      else if p = 49 then (attrs\<lparr>bg := None\<rparr>, 0)
      else if 90 \<le> p \<and> p \<le> 97 then (attrs\<lparr>fg := Some (p - 90 + 8)\<rparr>, 0)
      else if 100 \<le> p \<and> p \<le> 107 then (attrs\<lparr>bg := Some (p - 100 + 8)\<rparr>, 0)
      else (attrs, 0))"

text \<open>The loop itself, on the parameters from index \<open>i\<close> on. A parameter 0 returns
  \<^verbatim>\<open>{}\<close> at once.\<close>

fun parse_from :: "int list \<Rightarrow> SgrAttributes \<Rightarrow> SgrAttributes" where
  "parse_from [] attrs = attrs"
| "parse_from (p # rest) attrs =
     (if p = 0 then sgr_empty
      else parse_from (drop (snd (parse_step p rest attrs)) rest)
             (fst (parse_step p rest attrs)))"

definition SgrComposer_parse :: "int list \<Rightarrow> SgrAttributes" where
  "SgrComposer_parse params = parse_from params sgr_empty"

text \<open>\<^verbatim>\<open>{ ...base, ...overlay }\<close>: a key of the overlay wins, a key only the base has is
  kept.\<close>

definition over :: "'a option \<Rightarrow> 'a option \<Rightarrow> 'a option" where
  "over b ov = (case ov of None \<Rightarrow> b | Some v \<Rightarrow> Some v)"

definition SgrComposer_compose :: "SgrAttributes \<Rightarrow> SgrAttributes \<Rightarrow> SgrAttributes" where
  "SgrComposer_compose base overlay =
     \<lparr>fg = over (fg base) (fg overlay), bg = over (bg base) (bg overlay),
      bold = over (bold base) (bold overlay), dim = over (dim base) (dim overlay),
      italic = over (italic base) (italic overlay),
      underline = over (underline base) (underline overlay),
      blink = over (blink base) (blink overlay),
      inverse_attr = over (inverse_attr base) (inverse_attr overlay),
      hidden = over (hidden base) (hidden overlay),
      strikethrough = over (strikethrough base) (strikethrough overlay)\<rparr>"

text \<open>The array \<^verbatim>\<open>codes\<close> that \<^verbatim>\<open>SgrComposer.toSequence\<close> builds. \<^verbatim>\<open>if (attrs.bold)\<close> is
  taken only for the value \<^verbatim>\<open>true\<close>.\<close>

definition flag_code :: "bool option \<Rightarrow> int \<Rightarrow> int list" where
  "flag_code b c = (if b = Some True then [c] else [])"

definition color_codes :: "int option \<Rightarrow> int \<Rightarrow> int \<Rightarrow> int \<Rightarrow> int list" where
  "color_codes col ext std bright =
     (case col of
        None \<Rightarrow> []
      | Some c \<Rightarrow>
          (if (word_of_int c :: 32 word) AND 0x1000000 \<noteq> 0 then
             [ext, 2,
              sint (signed_drop_bit 16 (word_of_int c :: 32 word) AND 0xff),
              sint (signed_drop_bit 8 (word_of_int c :: 32 word) AND 0xff),
              sint ((word_of_int c :: 32 word) AND 0xff)]
           else if c < 8 then [std + c]
           else if c < 16 then [bright + (c - 8)]
           else [ext, 5, c]))"

definition sgr_codes :: "SgrAttributes \<Rightarrow> int list" where
  "sgr_codes attrs =
     flag_code (bold attrs) 1 @ flag_code (dim attrs) 2 @ flag_code (italic attrs) 3
     @ flag_code (underline attrs) 4 @ flag_code (blink attrs) 5
     @ flag_code (inverse_attr attrs) 7 @ flag_code (hidden attrs) 8
     @ flag_code (strikethrough attrs) 9
     @ color_codes (fg attrs) 38 30 90 @ color_codes (bg attrs) 48 40 100"

text \<open>\<^verbatim>\<open>codes.join(';')\<close> prints each number in decimal. Only integers within the
  range that JavaScript prints without an exponent are modelled.\<close>

fun digits10 :: "nat \<Rightarrow> string" where
  "digits10 n =
     (if n < 10 then [''0123456789'' ! n]
      else digits10 (n div 10) @ [''0123456789'' ! (n mod 10)])"

declare digits10.simps [simp del]

definition number_toString :: "int \<Rightarrow> string" where
  "number_toString i = (if i < 0 then CHR ''-'' # digits10 (nat (- i)) else digits10 (nat i))"

fun join_codes :: "int list \<Rightarrow> string" where
  "join_codes [] = []"
| "join_codes [c] = number_toString c"
| "join_codes (c # cs) = number_toString c @ CHR '';'' # join_codes cs"

abbreviation ESC :: char where "ESC \<equiv> CHR 0x1B"
abbreviation BEL :: char where "BEL \<equiv> CHR 0x07"
abbreviation BS :: char where "BS \<equiv> CHR 0x08"
abbreviation TAB :: char where "TAB \<equiv> CHR 0x09"
abbreviation LF :: char where "LF \<equiv> CHR 0x0A"
abbreviation CR :: char where "CR \<equiv> CHR 0x0D"

definition SgrComposer_toSequence :: "SgrAttributes \<Rightarrow> string" where
  "SgrComposer_toSequence attrs =
     (let codes = sgr_codes attrs
      in if length codes = 0 then [] else ESC # CHR ''['' # join_codes codes @ ''m'')"

text \<open>\<^verbatim>\<open>equals\<close> compares the ten keys with \<^verbatim>\<open>===\<close>, \<^verbatim>\<open>undefined\<close> being equal to
  itself only; \<^verbatim>\<open>isEmpty\<close> counts the keys.\<close>

definition SgrComposer_equals :: "SgrAttributes \<Rightarrow> SgrAttributes \<Rightarrow> bool" where
  "SgrComposer_equals a b =
     (fg a = fg b \<and> bg a = bg b \<and> bold a = bold b \<and> dim a = dim b \<and> italic a = italic b
      \<and> underline a = underline b \<and> blink a = blink b \<and> inverse_attr a = inverse_attr b
      \<and> hidden a = hidden b \<and> strikethrough a = strikethrough b)"

definition key_count :: "SgrAttributes \<Rightarrow> nat" where
  "key_count a =
     length (filter (\<lambda>k. k \<noteq> None) [fg a, bg a])
     + length (filter (\<lambda>k. k \<noteq> None)
         [bold a, dim a, italic a, underline a, blink a, inverse_attr a, hidden a,
          strikethrough a])"

definition SgrComposer_isEmpty :: "SgrAttributes \<Rightarrow> bool" where
  "SgrComposer_isEmpty attrs = (key_count attrs = 0)"

section \<open>The tokenizer (ansi/AnsiParser.ts)\<close>

text \<open>
  A JavaScript string is a sequence of code units; it is modelled as a \<open>string\<close>, a list
  of 8-bit characters, which covers every code unit the tokenizer tells apart (all code
  units from \<open>0x80\<close> on are printable). \<^verbatim>\<open>parseNext(str, pos)\<close> reads \<^verbatim>\<open>str[pos]\<close>,
  \<^verbatim>\<open>str[pos + 1]\<close> and \<^verbatim>\<open>str.slice(pos)\<close> only, so the model takes the slice
  \<open>remaining\<close> as its argument. The result is the sequence together with its \<^verbatim>\<open>length\<close>;
  \<open>None\<close> is \<^verbatim>\<open>null\<close>.
\<close>

datatype AnsiSequence =
    Csi (params: string) (cmd: char) (raw: string)
  | Escape string
  | Control char
  | Printable char

text \<open>The character classes \<^verbatim>\<open>[0-9;]\<close> and \<^verbatim>\<open>[A-Za-z`@]\<close> of \<^verbatim>\<open>CSI_REGEX\<close>, and
  \<^verbatim>\<open>[^\x07\x1b\n\r]\<close> of \<^verbatim>\<open>OSC_REGEX\<close>.\<close>

definition is_param_char :: "char \<Rightarrow> bool" where
  "is_param_char c = ((48 \<le> (of_char c :: nat) \<and> (of_char c :: nat) \<le> 57) \<or> c = CHR '';'')"

definition is_final_byte :: "char \<Rightarrow> bool" where
  "is_final_byte c =
     ((65 \<le> (of_char c :: nat) \<and> (of_char c :: nat) \<le> 90)
      \<or> (97 \<le> (of_char c :: nat) \<and> (of_char c :: nat) \<le> 122)
      \<or> c = CHR 0x60 \<or> c = CHR ''@'')"

definition is_osc_body_char :: "char \<Rightarrow> bool" where
  "is_osc_body_char c = (c \<noteq> BEL \<and> c \<noteq> ESC \<and> c \<noteq> LF \<and> c \<noteq> CR)"

text \<open>\<^verbatim>\<open>remaining.match(CSI_REGEX)\<close>, for a \<open>remaining\<close> that starts with \<^verbatim>\<open>ESC [\<close>: the
  longest run of parameter characters, then one final byte. The two classes are disjoint,
  so the greedy run never has to give a character back.\<close>

definition match_csi :: "string \<Rightarrow> (AnsiSequence \<times> nat) option" where
  "match_csi remaining =
     (let ps = takeWhile is_param_char (drop 2 remaining)
      in case dropWhile is_param_char (drop 2 remaining) of
           [] \<Rightarrow> None
         | c # _ \<Rightarrow>
             if is_final_byte c
             then Some (Csi ps c (take (length ps + 3) remaining), length ps + 3)
             else None)"

text \<open>\<^verbatim>\<open>remaining.match(OSC_REGEX)\<close>: \<^verbatim>\<open>ESC\<close>, one of \<^verbatim>\<open>] P ^ _\<close>, the longest run of
  body characters, then \<^verbatim>\<open>BEL\<close> or \<^verbatim>\<open>ESC \\<close> if one follows. The data is the whole
  match.\<close>

definition match_osc :: "string \<Rightarrow> (AnsiSequence \<times> nat) option" where
  "match_osc remaining =
     (case remaining of
        e # k # body \<Rightarrow>
          if e = ESC \<and> (k = CHR '']'' \<or> k = CHR ''P'' \<or> k = CHR ''^'' \<or> k = CHR ''_'') then
            (let run = takeWhile is_osc_body_char body;
                 after = dropWhile is_osc_body_char body;
                 terminator = (if take 1 after = [BEL] then 1
                               else if take 2 after = [ESC, CHR 0x5C] then 2 else 0);
                 n = 2 + length run + terminator
             in Some (Escape (take n remaining), n))
          else None
      | _ \<Rightarrow> None)"

text \<open>\<^verbatim>\<open>remaining.match(ESCAPE_REGEX)\<close>: \<^verbatim>\<open>ESC\<close> and one of \<^verbatim>\<open>7 8 = > H M\<close>; the data is
  that one character.\<close>

definition match_escape :: "string \<Rightarrow> (AnsiSequence \<times> nat) option" where
  "match_escape remaining =
     (case remaining of
        e # k # _ \<Rightarrow>
          if e = ESC \<and> (k = CHR ''7'' \<or> k = CHR ''8'' \<or> k = CHR ''='' \<or> k = CHR ''>''
                        \<or> k = CHR ''H'' \<or> k = CHR ''M'')
          then Some (Escape [k], 2) else None
      | _ \<Rightarrow> None)"

definition AnsiParser_parseNext :: "string \<Rightarrow> (AnsiSequence \<times> nat) option" where
  "AnsiParser_parseNext remaining =
     (case remaining of
        [] \<Rightarrow> None
      | char # rest \<Rightarrow>
          if char = LF \<or> char = CR \<or> char = TAB \<or> char = BS then Some (Control char, 1)
          else if char = ESC then
            (case (if take 1 rest = ''['' then match_csi remaining else None) of
               Some csi \<Rightarrow> Some csi
             | None \<Rightarrow>
                 (case match_osc remaining of
                    Some osc \<Rightarrow> Some osc
                  | None \<Rightarrow>
                      (case match_escape remaining of
                         Some esc \<Rightarrow> Some esc
                       | None \<Rightarrow> Some (Escape [ESC], 1))))
          else if 32 \<le> (of_char char :: nat) \<or> 127 < (of_char char :: nat)
            then Some (Printable char, 1)
          else None)"

text \<open>Modelled from the spec: \<^verbatim>\<open>stringEndsWith\<close> of \<^verbatim>\<open>compat.ts\<close>, which is not among the
  sources; the tokenizer uses it to find "a lone trailing ESC".\<close>

definition stringEndsWith :: "string \<Rightarrow> string \<Rightarrow> bool" where
  "stringEndsWith str sfx =
     (length sfx \<le> length str \<and> drop (length str - length sfx) str = sfx)"

text \<open>\<^verbatim>\<open>str.match(/(\x1b\[[0-9;]*)$/)\<close>: a match ends at the end of the string and holds
  parameter characters only after its \<^verbatim>\<open>ESC [\<close>, so it is the longest trailing run of
  parameter characters together with the \<^verbatim>\<open>ESC [\<close> right before that run.\<close>

definition match_incomplete_csi :: "string \<Rightarrow> string option" where
  "match_incomplete_csi str =
     (let run = rev (takeWhile is_param_char (rev str));
          front = take (length str - length run) str
      in if stringEndsWith front [ESC, CHR ''['']
         then Some (ESC # CHR ''['' # run) else None)"

definition AnsiParser_getIncompleteSequence :: "string \<Rightarrow> string" where
  "AnsiParser_getIncompleteSequence str =
     (if stringEndsWith str [ESC] then [ESC]
      else case match_incomplete_csi str of Some m \<Rightarrow> m | None \<Rightarrow> [])"

section \<open>The CSI classifier (ansi/CsiHandler.ts)\<close>

record Affects =
  affects_cursor :: bool
  affects_erasure :: bool
  affects_style :: bool

record CsiCommand =
  command :: char
  csi_params :: "int list"
  affects :: Affects

text \<open>\<^verbatim>\<open>params.split(';')\<close>.\<close>

fun split_semicolon :: "string \<Rightarrow> string list" where
  "split_semicolon [] = [[]]"
| "split_semicolon (c # cs) =
     (if c = CHR '';'' then [] # split_semicolon cs
      else (case split_semicolon cs of
              item # items \<Rightarrow> (c # item) # items
            | [] \<Rightarrow> [[c]]))"

text \<open>\<^verbatim>\<open>parseInt(n, 10) || 0\<close> on a field, which holds decimal digits only (the regular
  expression admits nothing else): the empty field gives \<^verbatim>\<open>NaN\<close> and so 0. The value is
  taken exactly; digit strings too long for a JavaScript number to hold exactly are
  outside the model.\<close>

definition digit_value :: "char \<Rightarrow> int" where
  "digit_value c = int (of_char c) - 48"

definition parseInt_or_0 :: "string \<Rightarrow> int" where
  "parseInt_or_0 n =
     foldl (\<lambda>acc c. 10 * acc + digit_value c) 0
       (takeWhile (\<lambda>c. 48 \<le> (of_char c :: nat) \<and> (of_char c :: nat) \<le> 57) n)"

text \<open>An absent key of \<^verbatim>\<open>affects\<close> is only ever read through \<^verbatim>\<open>if (csi.affects.cursor)\<close>,
  so it is modelled as \<open>False\<close>.\<close>

definition categorize :: "char \<Rightarrow> Affects" where
  "categorize c =
     (if c = CHR ''m'' then
        \<lparr>affects_cursor = False, affects_erasure = False, affects_style = True\<rparr>
      else if c = CHR ''G'' \<or> c = CHR ''C'' \<or> c = CHR ''D'' \<or> c = CHR 0x60 then
        \<lparr>affects_cursor = True, affects_erasure = False, affects_style = False\<rparr>
      else if c = CHR ''A'' \<or> c = CHR ''B'' \<or> c = CHR ''H'' \<or> c = CHR ''f'' then
        \<lparr>affects_cursor = False, affects_erasure = False, affects_style = False\<rparr>
      else if c = CHR ''K'' \<or> c = CHR ''X'' \<or> c = CHR ''P'' \<or> c = CHR ''@'' then
        \<lparr>affects_cursor = False, affects_erasure = True, affects_style = False\<rparr>
      else if c = CHR ''J'' \<or> c = CHR ''S'' \<or> c = CHR ''T'' \<or> c = CHR ''L''
              \<or> c = CHR ''M'' then
        \<lparr>affects_cursor = False, affects_erasure = False, affects_style = False\<rparr>
      else if c = CHR ''s'' \<or> c = CHR ''u'' then
        \<lparr>affects_cursor = True, affects_erasure = False, affects_style = False\<rparr>
      else \<lparr>affects_cursor = False, affects_erasure = False, affects_style = False\<rparr>)"

definition CsiHandler_parse :: "string \<Rightarrow> char \<Rightarrow> CsiCommand" where
  "CsiHandler_parse ps c =
     \<lparr>command = c,
      csi_params = (if ps \<noteq> [] then map parseInt_or_0 (split_semicolon ps) else [0]),
      affects = categorize c\<rparr>"

section \<open>The streaming terminal (StreamingTerminal.ts)\<close>

text \<open>
  A cell of the line is \<^verbatim>\<open>null\<close> (or a hole of the array, which every read in the class
  treats alike) or a glyph. The character of a glyph is a one-character string and hence
  always truthy, so \<^verbatim>\<open>cell?.char\<close> is truthy exactly for a glyph.
\<close>

record Cell =
  char :: char
  sgr :: SgrAttributes

record TerminalState =
  hadNewline :: bool
  hadCarriageReturn :: bool
  hadCursorMovement :: bool
  hadErasure :: bool
  cursorPosition :: int
  cellCount :: int

text \<open>
  The fields of the class. The cursor is a JavaScript number and is modelled as an \<open>int\<close>.
  The field \<^verbatim>\<open>lineReadyCallback\<close> is a closure over the object that owns the terminal; it
  is passed to \<^verbatim>\<open>write\<close> as a parameter, a function on the whole state or \<open>None\<close> when no
  callback is set. The owner's own fields are the extension part of the record scheme, so
  that one state holds everything the callback can change.
\<close>

record StreamingTerminal =
  cells :: "Cell option list"
  cursor :: int
  activeSgr :: SgrAttributes
  savedCursor :: int
  incompleteSequence :: string

text \<open>The state of \<^verbatim>\<open>new StreamingTerminal()\<close>.\<close>

definition new_StreamingTerminal :: StreamingTerminal where
  "new_StreamingTerminal =
     \<lparr>cells = [], cursor = 0, activeSgr = sgr_empty, savedCursor = 0,
      incompleteSequence = []\<rparr>"

text \<open>
  Array writes. \<^verbatim>\<open>a[i] = v\<close> past the end lengthens the array, leaving holes; at a
  negative index it would set a property that no loop of the class reads.
  \<^verbatim>\<open>a.length = n\<close> cuts the array or lengthens it with holes; a negative \<open>n\<close> would raise
  \<^verbatim>\<open>RangeError\<close>, which the model does not represent: there the array is left as it is.
  \<^verbatim>\<open>a.splice(start, n)\<close> and \<^verbatim>\<open>a.splice(start, 0, ...blanks)\<close> clamp \<open>start\<close> to the length
  (counting a negative \<open>start\<close> from the end). Arrays beyond the engine's size limits are
  outside the model.
\<close>

definition set_cell :: "Cell option list \<Rightarrow> int \<Rightarrow> Cell option \<Rightarrow> Cell option list" where
  "set_cell cs i v =
     (if i < 0 then cs
      else if nat i < length cs then cs[nat i := v]
      else cs @ replicate (nat i - length cs) None @ [v])"

definition set_length :: "Cell option list \<Rightarrow> int \<Rightarrow> Cell option list" where
  "set_length cs n =
     (if n < 0 then cs else take (nat n) cs @ replicate (nat n - length cs) None)"

definition splice_start :: "Cell option list \<Rightarrow> int \<Rightarrow> nat" where
  "splice_start cs start =
     (if start < 0 then nat (max (int (length cs) + start) 0)
      else min (nat start) (length cs))"

definition splice_delete :: "Cell option list \<Rightarrow> int \<Rightarrow> int \<Rightarrow> Cell option list" where
  "splice_delete cs start n =
     take (splice_start cs start) cs @ drop (splice_start cs start + nat n) cs"

definition splice_insert :: "Cell option list \<Rightarrow> int \<Rightarrow> int \<Rightarrow> Cell option list" where
  "splice_insert cs start n =
     take (splice_start cs start) cs @ replicate (nat n) None
       @ drop (splice_start cs start) cs"

text \<open>\<^verbatim>\<open>params[0] || d\<close>: a first parameter 0 (or a missing one) gives the default.\<close>

definition param0_or :: "int list \<Rightarrow> int \<Rightarrow> int" where
  "param0_or ps d = (case ps of [] \<Rightarrow> d | p # _ \<Rightarrow> if p = 0 then d else p)"

text \<open>The \<^verbatim>\<open>switch\<close> of \<^verbatim>\<open>applyCsi\<close>. The \<^verbatim>\<open>for\<close> loops of \<^verbatim>\<open>K\<close> and \<^verbatim>\<open>X\<close> run over the
  integers \<open>[0..cursor]\<close> and \<open>[0..count - 1]\<close>.\<close>

definition csi_switch :: "char \<Rightarrow> int list \<Rightarrow> 'a StreamingTerminal_scheme \<Rightarrow> 'a StreamingTerminal_scheme" where
  "csi_switch c ps t =
     (if c = CHR ''m'' then
        t\<lparr>activeSgr := SgrComposer_compose (activeSgr t) (SgrComposer_parse ps)\<rparr>
      else if c = CHR ''G'' then t\<lparr>cursor := max 0 (param0_or ps 1 - 1)\<rparr>
      else if c = CHR 0x60 then t\<lparr>cursor := max 0 (param0_or ps 1 - 1)\<rparr>
      else if c = CHR ''C'' then t\<lparr>cursor := cursor t + param0_or ps 1\<rparr>
      else if c = CHR ''D'' then t\<lparr>cursor := max 0 (cursor t - param0_or ps 1)\<rparr>
      else if c = CHR ''K'' then
        (if param0_or ps 0 = 0 then t\<lparr>cells := set_length (cells t) (cursor t)\<rparr>
         else if param0_or ps 0 = 1 then
           t\<lparr>cells := fold (\<lambda>j cs. set_cell cs j None) [0..cursor t] (cells t)\<rparr>
         else if param0_or ps 0 = 2 then t\<lparr>cells := [], cursor := 0\<rparr>
         else t)
      else if c = CHR ''X'' then
        t\<lparr>cells := fold (\<lambda>j cs. set_cell cs (cursor t + j) None)
                      [0..param0_or ps 1 - 1] (cells t)\<rparr>
      else if c = CHR ''P'' then
        t\<lparr>cells := splice_delete (cells t) (cursor t) (param0_or ps 1)\<rparr>
      else if c = CHR ''@'' then
        t\<lparr>cells := splice_insert (cells t) (cursor t) (param0_or ps 1)\<rparr>
      else if c = CHR ''s'' then t\<lparr>savedCursor := cursor t\<rparr>
      else if c = CHR ''u'' then t\<lparr>cursor := savedCursor t\<rparr>
      else t)"

definition applyCsi :: "CsiCommand \<Rightarrow> 'a StreamingTerminal_scheme \<times> TerminalState
    \<Rightarrow> 'a StreamingTerminal_scheme \<times> TerminalState" where
  "applyCsi csi ts =
     (let state1 = (if affects_cursor (affects csi)
                    then (snd ts)\<lparr>hadCursorMovement := True\<rparr> else snd ts);
          state2 = (if affects_erasure (affects csi)
                    then state1\<lparr>hadErasure := True\<rparr> else state1)
      in (csi_switch (command csi) (csi_params csi) (fst ts), state2))"

definition applyEscape :: "string \<Rightarrow> 'a StreamingTerminal_scheme \<times> TerminalState
    \<Rightarrow> 'a StreamingTerminal_scheme \<times> TerminalState" where
  "applyEscape data ts =
     (if data = ''7'' then
        ((fst ts)\<lparr>savedCursor := cursor (fst ts)\<rparr>, (snd ts)\<lparr>hadCursorMovement := True\<rparr>)
      else if data = ''8'' then
        ((fst ts)\<lparr>cursor := savedCursor (fst ts)\<rparr>, (snd ts)\<lparr>hadCursorMovement := True\<rparr>)
      else ts)"

text \<open>The tab loop writes a space glyph into every cell from the cursor up to the next
  multiple of 8 and leaves the cursor there (\<open>nextTab\<close> is always beyond the cursor).\<close>

definition applyControl :: "('a StreamingTerminal_scheme \<Rightarrow> 'a StreamingTerminal_scheme) option
    \<Rightarrow> char \<Rightarrow> 'a StreamingTerminal_scheme \<times> TerminalState
    \<Rightarrow> 'a StreamingTerminal_scheme \<times> TerminalState" where
  "applyControl lineReadyCallback c ts =
     (if c = CR then ((fst ts)\<lparr>cursor := 0\<rparr>, (snd ts)\<lparr>hadCarriageReturn := True\<rparr>)
      else if c = LF then
        (case lineReadyCallback of
           Some callback \<Rightarrow> (callback (fst ts), (snd ts)\<lparr>hadNewline := True\<rparr>)
         | None \<Rightarrow> (fst ts, (snd ts)\<lparr>hadNewline := True\<rparr>))
      else if c = BS then
        ((fst ts)\<lparr>cursor := max 0 (cursor (fst ts) - 1)\<rparr>,
         (snd ts)\<lparr>hadCursorMovement := True\<rparr>)
      else if c = TAB then
        (let nextTab = (cursor (fst ts) div 8 + 1) * 8
         in ((fst ts)\<lparr>cells := fold (\<lambda>j cs. set_cell cs j
                                   (Some \<lparr>char = CHR '' '', sgr = activeSgr (fst ts)\<rparr>))
                                 [cursor (fst ts)..nextTab - 1] (cells (fst ts)),
                       cursor := nextTab\<rparr>, snd ts))
      else ts)"

text \<open>The body of the \<^verbatim>\<open>while\<close> loop of \<^verbatim>\<open>write\<close> for one sequence.\<close>

definition apply_sequence :: "('a StreamingTerminal_scheme \<Rightarrow> 'a StreamingTerminal_scheme) option
    \<Rightarrow> AnsiSequence \<Rightarrow> 'a StreamingTerminal_scheme \<times> TerminalState
    \<Rightarrow> 'a StreamingTerminal_scheme \<times> TerminalState" where
  "apply_sequence lineReadyCallback seq ts =
     (case seq of
        Csi ps c r \<Rightarrow> applyCsi (CsiHandler_parse ps c) ts
      | Escape data \<Rightarrow> applyEscape data ts
      | Control c \<Rightarrow> applyControl lineReadyCallback c ts
      | Printable c \<Rightarrow>
          ((fst ts)\<lparr>cells := set_cell (cells (fst ts)) (cursor (fst ts))
                                (Some \<lparr>char = c, sgr = activeSgr (fst ts)\<rparr>),
                     cursor := cursor (fst ts) + 1\<rparr>, snd ts))"

text \<open>Every sequence the tokenizer returns has a positive length and lies within the
  string. The loop of \<^verbatim>\<open>write\<close> ends because of that.\<close>

lemma length_takeWhile_dropWhile:
  "length (takeWhile P xs) + length (dropWhile P xs) = length xs"
  by (metis length_append takeWhile_dropWhile_id)

lemma match_csi_length:
  assumes "match_csi r = Some (seq, n)"
  shows "0 < n \<and> n \<le> length r"
proof -
  obtain c rest where d: "dropWhile is_param_char (drop 2 r) = c # rest"
    and n: "n = length (takeWhile is_param_char (drop 2 r)) + 3"
    using assms by (auto simp: match_csi_def Let_def split: list.splits if_splits)
  have "length (takeWhile is_param_char (drop 2 r)) + length (c # rest) = length (drop 2 r)"
    using length_takeWhile_dropWhile[of is_param_char "drop 2 r"] d by simp
  thus ?thesis using n by auto
qed

lemma osc_terminator_length:
  "(if take 1 after = [BEL] then 1 else if take 2 after = [ESC, CHR 0x5C] then 2 else (0::nat))
     \<le> length after"
  by (cases after; cases "tl after") auto

lemma match_osc_length:
  assumes "match_osc r = Some (seq, n)"
  shows "0 < n \<and> n \<le> length r"
proof -
  obtain e k body where r: "r = e # k # body"
    using assms by (auto simp: match_osc_def split: list.splits)
  define run where "run = takeWhile is_osc_body_char body"
  define after where "after = dropWhile is_osc_body_char body"
  have len: "length run + length after = length body"
    unfolding run_def after_def by (rule length_takeWhile_dropWhile)
  have n: "n = 2 + length run + (if take 1 after = [BEL] then 1
                               else if take 2 after = [ESC, CHR 0x5C] then 2 else 0)"
    using assms unfolding r match_osc_def run_def after_def
    by (simp add: Let_def split: if_splits)
  show ?thesis using n len r osc_terminator_length[of after] by simp
qed

lemma match_escape_length:
  "match_escape r = Some (seq, n) \<Longrightarrow> 0 < n \<and> n \<le> length r"
  by (auto simp: match_escape_def split: list.splits if_splits)

lemma parseNext_length:
  assumes "AnsiParser_parseNext s = Some (seq, n)"
  shows "0 < n \<and> n \<le> length s"
proof (cases s)
  case Nil
  then show ?thesis using assms by (simp add: AnsiParser_parseNext_def)
next
  case (Cons c rest)
  show ?thesis
  proof (cases "c = ESC")
    case False
    then show ?thesis using assms Cons
      by (auto simp: AnsiParser_parseNext_def split: if_splits)
  next
    case True
    then show ?thesis
      using assms Cons match_csi_length[of s seq n] match_osc_length[of s seq n]
        match_escape_length[of s seq n]
      by (auto simp: AnsiParser_parseNext_def split: if_splits option.splits)
  qed
qed

text \<open>The loop over \<^verbatim>\<open>i\<close>: \<open>remaining\<close> is \<^verbatim>\<open>str.slice(i)\<close>. An ignored character moves
  \<open>i\<close> by one, a sequence by its length.\<close>

function write_loop :: "('a StreamingTerminal_scheme \<Rightarrow> 'a StreamingTerminal_scheme) option
    \<Rightarrow> string \<Rightarrow> 'a StreamingTerminal_scheme \<times> TerminalState
    \<Rightarrow> 'a StreamingTerminal_scheme \<times> TerminalState" where
  "write_loop lineReadyCallback remaining ts =
     (if remaining = [] then ts
      else case AnsiParser_parseNext remaining of
             None \<Rightarrow> write_loop lineReadyCallback (drop 1 remaining) ts
           | Some (seq, n) \<Rightarrow>
               write_loop lineReadyCallback (drop n remaining)
                 (apply_sequence lineReadyCallback seq ts))"
  by pat_completeness auto
termination
  apply (relation "measure (\<lambda>(cb, remaining, ts). length remaining)")
    apply simp
   apply simp
  subgoal for cb remaining ts x2 seq n
    using parseNext_length[of remaining seq n] by simp
  done

declare write_loop.simps [simp del]

text \<open>\<^verbatim>\<open>write\<close> itself; the name carries the class because \<open>write\<close> is a keyword of Isabelle.\<close>

definition StreamingTerminal_write :: "('a StreamingTerminal_scheme \<Rightarrow> 'a StreamingTerminal_scheme) option
    \<Rightarrow> 'a StreamingTerminal_scheme \<Rightarrow> string
    \<Rightarrow> 'a StreamingTerminal_scheme \<times> TerminalState" where
  "StreamingTerminal_write lineReadyCallback t input =
     (let str = (if incompleteSequence t \<noteq> [] then incompleteSequence t @ input else input);
          t0 = (if incompleteSequence t \<noteq> [] then t\<lparr>incompleteSequence := []\<rparr> else t);
          state = \<lparr>hadNewline = False, hadCarriageReturn = False,
                   hadCursorMovement = False, hadErasure = False,
                   cursorPosition = cursor t0, cellCount = int (length (cells t0))\<rparr>;
          ts1 = write_loop lineReadyCallback str (t0, state);
          incomplete = AnsiParser_getIncompleteSequence str;
          t2 = (if incomplete \<noteq> [] then (fst ts1)\<lparr>incompleteSequence := incomplete\<rparr>
                else fst ts1)
      in (t2, (snd ts1)\<lparr>cursorPosition := cursor t2,
                         cellCount := int (length (cells t2))\<rparr>))"

text \<open>
  \<^verbatim>\<open>renderLine\<close>. The first loop finds the last glyph; \<open>lastContentIndex\<close> is one less
  than the length of the cells without their trailing empty ones, which is \<open>-1\<close> when
  there is no glyph. The second loop walks the cells up to that index with the string
  built so far and \<^verbatim>\<open>lastSgr\<close>.
\<close>

abbreviation SGR_RESET :: string where "SGR_RESET \<equiv> [ESC, CHR ''['', CHR ''0'', CHR ''m'']"

definition drop_trailing :: "('a \<Rightarrow> bool) \<Rightarrow> 'a list \<Rightarrow> 'a list" where
  "drop_trailing P xs = rev (dropWhile P (rev xs))"

definition lastContentIndex :: "Cell option list \<Rightarrow> int" where
  "lastContentIndex cs = int (length (drop_trailing (\<lambda>cell. cell = None) cs)) - 1"

fun render_loop :: "Cell option list \<Rightarrow> string \<times> SgrAttributes \<Rightarrow> string \<times> SgrAttributes" where
  "render_loop [] acc = acc"
| "render_loop (cell # rest) (result, lastSgr) =
     (case cell of
        Some glyph \<Rightarrow>
          (if \<not> SgrComposer_equals (sgr glyph) lastSgr then
             render_loop rest
               (result
                  @ (if SgrComposer_isEmpty (sgr glyph) then SGR_RESET
                     else (if \<not> SgrComposer_isEmpty lastSgr then SGR_RESET else [])
                          @ SgrComposer_toSequence (sgr glyph))
                  @ [char glyph],
                sgr glyph)
           else render_loop rest (result @ [char glyph], lastSgr))
      | None \<Rightarrow>
          (if \<not> SgrComposer_isEmpty lastSgr
           then render_loop rest (result @ SGR_RESET @ '' '', sgr_empty)
           else render_loop rest (result @ '' '', lastSgr)))"

text \<open>\<^verbatim>\<open>result.replace(/ +\x1b\[0m$/, '\x1b[0m')\<close> removes the run of spaces right before
  a final reset, \<^verbatim>\<open>result.replace(/ +$/, '')\<close> the trailing spaces.\<close>

definition trim_before_reset :: "string \<Rightarrow> string" where
  "trim_before_reset result =
     (if stringEndsWith result SGR_RESET
      then drop_trailing (\<lambda>c. c = CHR '' '') (take (length result - 4) result) @ SGR_RESET
      else result)"

definition trim_trailing_spaces :: "string \<Rightarrow> string" where
  "trim_trailing_spaces result = drop_trailing (\<lambda>c. c = CHR '' '') result"

definition render_cells :: "Cell option list \<Rightarrow> string" where
  "render_cells cs =
     (if lastContentIndex cs = - 1 then []
      else (let walked = render_loop (take (nat (lastContentIndex cs + 1)) cs) ([], sgr_empty);
                result = (if \<not> SgrComposer_isEmpty (snd walked)
                          then fst walked @ SGR_RESET else fst walked)
            in trim_trailing_spaces (trim_before_reset result)))"

text \<open>Every method is a function from the state of the object to its result and the
  state it leaves; \<^verbatim>\<open>renderLine\<close> assigns to no field.\<close>

definition renderLine :: "'a StreamingTerminal_scheme \<Rightarrow> string \<times> 'a StreamingTerminal_scheme" where
  "renderLine t = (render_cells (cells t), t)"

definition reset :: "'a StreamingTerminal_scheme \<Rightarrow> 'a StreamingTerminal_scheme" where
  "reset t = t\<lparr>cells := [], cursor := 0\<rparr>"

definition hasContent :: "'a StreamingTerminal_scheme \<Rightarrow> bool" where
  "hasContent t = (length (cells t) > 0)"

definition getCursor :: "'a StreamingTerminal_scheme \<Rightarrow> int" where
  "getCursor t = cursor t"

definition dispose :: "'a StreamingTerminal_scheme \<Rightarrow> 'a StreamingTerminal_scheme" where
  "dispose t = t\<lparr>cells := [], activeSgr := sgr_empty, incompleteSequence := []\<rparr>"

section \<open>Strategies and the transform adapter (strategies/*.ts, TerminalTransform.ts)\<close>

text \<open>
  The three strategies with their timeouts in milliseconds. A strategy's timer is the
  field \<open>flushTimer\<close>: \<open>Some ms\<close> is a timer armed for \<open>ms\<close> milliseconds, \<open>None\<close> no timer.
  When and whether an armed timer fires is not modelled. The transform installs an emit
  callback in its constructor, so \<^verbatim>\<open>this.emitCallback\<close> is always set.
\<close>

datatype Strategy =
    ImmediateStrategy
  | TimeoutStrategy nat
  | StatefulTimeoutStrategy nat nat

text \<open>
  The transform owns one terminal and one strategy. Its state extends the terminal's:
  the lines passed to \<^verbatim>\<open>lineCallback\<close>, the strings given to \<^verbatim>\<open>push\<close>, the polling
  buffer, and the \<^verbatim>\<open>line\<close> and \<^verbatim>\<open>error\<close> events, each in order.
\<close>

record TerminalTransform = StreamingTerminal +
  strategy :: Strategy
  flushTimer :: "nat option"
  lineCallbackSet :: bool
  callbackLines :: "string list"
  pushed :: "string list"
  pendingLines :: "string list"
  lineEvents :: "string list"
  errorEvents :: "string list"

definition MAX_PENDING :: nat where
  "MAX_PENDING = 1000"

definition new_TerminalTransform :: "Strategy \<Rightarrow> TerminalTransform" where
  "new_TerminalTransform strat =
     \<lparr>cells = [], cursor = 0, activeSgr = sgr_empty, savedCursor = 0,
      incompleteSequence = [], strategy = strat, flushTimer = None,
      lineCallbackSet = False, callbackLines = [], pushed = [], pendingLines = [],
      lineEvents = [], errorEvents = []\<rparr>"

definition emitCurrentLine :: "TerminalTransform \<Rightarrow> TerminalTransform" where
  "emitCurrentLine tr =
     (let line = fst (renderLine tr);
          tr1 = reset (snd (renderLine tr));
          tr2 = (if lineCallbackSet tr1 then tr1\<lparr>callbackLines := callbackLines tr1 @ [line]\<rparr>
                 else (let tr' = tr1\<lparr>pushed := pushed tr1 @ [line @ [LF]],
                                      pendingLines := pendingLines tr1 @ [line]\<rparr>
                       in if length (pendingLines tr') > MAX_PENDING
                          then tr'\<lparr>errorEvents := errorEvents tr' @ [''Pending lines buffer overflow''],
                                  pendingLines := tl (pendingLines tr')\<rparr>
                          else tr'))
      in tr2\<lparr>lineEvents := lineEvents tr2 @ [line]\<rparr>)"

text \<open>\<^verbatim>\<open>strategy.onWrite(terminal, state)\<close>: the answer and the state with the timer
  cancelled and possibly armed again.\<close>

definition onWrite :: "TerminalTransform \<Rightarrow> TerminalState \<Rightarrow> bool \<times> TerminalTransform" where
  "onWrite tr state =
     (case strategy tr of
        ImmediateStrategy \<Rightarrow> (False, tr)
      | TimeoutStrategy timeout \<Rightarrow>
          (if hadNewline state then (True, tr\<lparr>flushTimer := None\<rparr>)
           else if hasContent tr then (False, tr\<lparr>flushTimer := Some timeout\<rparr>)
           else (False, tr\<lparr>flushTimer := None\<rparr>))
      | StatefulTimeoutStrategy volatileTimeout stableTimeout \<Rightarrow>
          (if hadNewline state then (True, tr\<lparr>flushTimer := None\<rparr>)
           else (let isVolatile = (hadCarriageReturn state \<or> hadCursorMovement state
                                   \<or> hadErasure state)
                 in if hasContent tr
                    then (False, tr\<lparr>flushTimer :=
                                     Some (if isVolatile then volatileTimeout else stableTimeout)\<rparr>)
                    else (False, tr\<lparr>flushTimer := None\<rparr>))))"

text \<open>\<^verbatim>\<open>_transform\<close> for one chunk. The line-ready callback of the terminal is
  \<^verbatim>\<open>emitCurrentLine\<close>, installed by the constructor.\<close>

definition TerminalTransform_transform :: "TerminalTransform \<Rightarrow> string \<Rightarrow> TerminalTransform" where
  "TerminalTransform_transform tr chunk =
     (let written = StreamingTerminal_write (Some emitCurrentLine) tr chunk;
          decided = onWrite (fst written) (snd written)
      in if fst decided then emitCurrentLine (snd decided) else snd decided)"

text \<open>\<^verbatim>\<open>_flush\<close> at the end of the stream: \<^verbatim>\<open>strategy.flush()\<close> cancels the timer and
  answers \<^verbatim>\<open>true\<close>; the rest is emitted only if the terminal has content.\<close>

definition TerminalTransform_flush :: "TerminalTransform \<Rightarrow> TerminalTransform" where
  "TerminalTransform_flush tr =
     (let tr1 = tr\<lparr>flushTimer := None\<rparr>;
          shouldFlush = True;
          tr2 = (if shouldFlush \<and> hasContent tr1 then emitCurrentLine tr1 else tr1)
      in dispose (tr2\<lparr>flushTimer := None\<rparr>))"

section \<open>Vocabulary of the properties\<close>

text \<open>
  The definitions from here on are not code of the repository; they name the conditions
  and the observations that the properties below speak about.
\<close>

subsection \<open>SGR round trip\<close>




subsection \<open>Chunk boundaries\<close>





subsection \<open>Cursor bounds\<close>








subsection \<open>The two parts of a string that the match of an incomplete CSI sequence reads\<close>



section \<open>The SGR composer\<close>

subsection \<open>Composition with the empty record\<close>





subsection \<open>The reset parameter\<close>






subsection \<open>Round trip through the codes of a sequence\<close>
















section \<open>The tokenizer\<close>

lemma parseNext_no_esc:
  "c \<noteq> ESC \<Longrightarrow> AnsiParser_parseNext (c # rest) = AnsiParser_parseNext [c]"
  by (simp add: AnsiParser_parseNext_def)

lemma parseNext_text:
  "32 \<le> (of_char c :: nat) \<Longrightarrow> AnsiParser_parseNext (c # rest) = Some (Printable c, 1)"
  by (auto simp: AnsiParser_parseNext_def)

subsection \<open>The incomplete sequence of a string that continues\<close>











section \<open>The loop of write\<close>

lemma write_loop_Nil [simp]: "write_loop cb [] ts = ts"
  by (simp add: write_loop.simps)

lemma write_loop_text:
  "32 \<le> (of_char c :: nat) \<Longrightarrow>
     write_loop cb (c # rest) ts = write_loop cb rest (apply_sequence cb (Printable c) ts)"
  by (simp add: write_loop.simps[of cb "c # rest"] parseNext_text)

text \<open>The terminal that a sequence leaves does not depend on the flags collected so
  far.\<close>

lemma fst_apply_sequence_state:
  "fst (apply_sequence cb seq (t, st)) = fst (apply_sequence cb seq (t, st'))"
  by (auto simp: apply_sequence_def applyCsi_def applyEscape_def applyControl_def Let_def split: AnsiSequence.splits option.splits)

lemma fst_write_loop_state':
  "fst (write_loop cb s ts) = fst (write_loop cb s (fst ts, st'))"
proof (induction cb s ts arbitrary: st' rule: write_loop.induct)
  case (1 cb remaining ts)
  show ?case
  proof (cases "remaining = []")
    case True
    then show ?thesis by simp 
  next
    case False
    show ?thesis
    proof (cases "AnsiParser_parseNext remaining")
      case None
      then show ?thesis using False 1(1)[OF False None, of st']
        by (simp add: write_loop.simps[of cb remaining])
    next
      case (Some a)
      obtain seq n where a: "a = (seq, n)" by (cases a)
      have e: "fst (apply_sequence cb seq (fst ts, st')) = fst (apply_sequence cb seq ts)"
        using fst_apply_sequence_state[of cb seq "fst ts" st' "snd ts"] by simp
      have "fst (write_loop cb (drop n remaining) (apply_sequence cb seq ts))
          = fst (write_loop cb (drop n remaining) (fst (apply_sequence cb seq ts), snd (apply_sequence cb seq (fst ts, st'))))"
        by (rule 1(2)[OF False Some a[symmetric]])
      also have "(fst (apply_sequence cb seq ts), snd (apply_sequence cb seq (fst ts, st'))) = apply_sequence cb seq (fst ts, st')"
        using e by (metis prod.collapse)
      finally show ?thesis using False Some a
        by (simp add: write_loop.simps[of cb remaining])
    qed
  qed
qed

lemma fst_write_loop_state:
  "fst (write_loop cb s (t, st)) = fst (write_loop cb s (t, st'))"
  using fst_write_loop_state'[of cb s "(t, st)" st'] by simp

text \<open>What \<^verbatim>\<open>write\<close> leaves, in terms of its loop, for any flags \<open>st\<close> the loop starts
  from.\<close>

lemma fst_write:
  "fst (StreamingTerminal_write cb t input) =
     (if AnsiParser_getIncompleteSequence (incompleteSequence t @ input) \<noteq> []
      then (fst (write_loop cb (incompleteSequence t @ input) (t\<lparr>incompleteSequence := []\<rparr>, st)))
             \<lparr>incompleteSequence := AnsiParser_getIncompleteSequence (incompleteSequence t @ input)\<rparr>
      else fst (write_loop cb (incompleteSequence t @ input) (t\<lparr>incompleteSequence := []\<rparr>, st)))"
proof -
  define st0 :: TerminalState where "st0 = \<lparr>hadNewline = False, hadCarriageReturn = False,
       hadCursorMovement = False, hadErasure = False,
       cursorPosition = cursor (t\<lparr>incompleteSequence := []\<rparr>),
       cellCount = int (length (cells (t\<lparr>incompleteSequence := []\<rparr>)))\<rparr>"
  have same: "incompleteSequence t = [] \<Longrightarrow> t\<lparr>incompleteSequence := []\<rparr> = t" by simp
  have str: "(if incompleteSequence t \<noteq> [] then incompleteSequence t @ input else input)
      = incompleteSequence t @ input" by simp
  have t0: "(if incompleteSequence t \<noteq> [] then t\<lparr>incompleteSequence := []\<rparr> else t)
      = t\<lparr>incompleteSequence := []\<rparr>" using same by simp
  have "fst (StreamingTerminal_write cb t input) =
     (if AnsiParser_getIncompleteSequence (incompleteSequence t @ input) \<noteq> []
      then (fst (write_loop cb (incompleteSequence t @ input) (t\<lparr>incompleteSequence := []\<rparr>, st0)))
             \<lparr>incompleteSequence := AnsiParser_getIncompleteSequence (incompleteSequence t @ input)\<rparr>
      else fst (write_loop cb (incompleteSequence t @ input) (t\<lparr>incompleteSequence := []\<rparr>, st0)))"
    unfolding StreamingTerminal_write_def Let_def str t0 st0_def by simp
  moreover have "fst (write_loop cb (incompleteSequence t @ input) (t\<lparr>incompleteSequence := []\<rparr>, st0))
     = fst (write_loop cb (incompleteSequence t @ input) (t\<lparr>incompleteSequence := []\<rparr>, st))"
    by (rule fst_write_loop_state)
  ultimately show ?thesis by simp
qed





section \<open>Writing a chunk in two parts\<close>




text \<open>
  A chunk that ends inside a CSI sequence is outside that statement. There the loop of
  \<^verbatim>\<open>write\<close> has already gone over the characters it then puts into the buffer: it skips
  the \<^verbatim>\<open>ESC\<close> and prints the rest. With \<^verbatim>\<open>text ESC [ 3\<close> and \<^verbatim>\<open>1 m r e d\<close> the line
  holds \<^verbatim>\<open>text[3red\<close>, the last three cells in red.
\<close>

lemma split_csi_prints_tail:
  "map (map_option char)
     (cells (fst (StreamingTerminal_write None
                    (fst (StreamingTerminal_write None new_StreamingTerminal
                            (''text'' @ ESC # ''[3'')))
                    ''1mred'')))
     = map Some ''text[3red''
   \<and> map (map_option char)
     (cells (fst (StreamingTerminal_write None new_StreamingTerminal
                    ((''text'' @ ESC # ''[3'') @ ''1mred''))))
     = map Some ''textred''"
  by code_simp

section \<open>The cursor and the length of the line\<close>







subsection \<open>The parameters of a CSI sequence are never negative\<close>







subsection \<open>What one sequence does to the cursor\<close>





subsection \<open>What a write and a sequence of writes do to the cursor\<close>










section \<open>Plain text leaves the SGR state and the saved cursor alone\<close>

lemma write_loop_text_frame:
  "list_all (\<lambda>c. 32 \<le> (of_char c :: nat)) s \<Longrightarrow>
     activeSgr (fst (write_loop cb s ts)) = activeSgr (fst ts)
     \<and> savedCursor (fst (write_loop cb s ts)) = savedCursor (fst ts)"
proof (induction s arbitrary: ts)
  case Nil
  then show ?case by simp
next
  case (Cons c s)
  have "activeSgr (fst (apply_sequence cb (Printable c) ts)) = activeSgr (fst ts)"
    and "savedCursor (fst (apply_sequence cb (Printable c) ts)) = savedCursor (fst ts)"
    by (simp_all add: apply_sequence_def)
  then show ?case using Cons by (simp add: write_loop_text)
qed

text \<open>
  C6, counterexample. After \<^verbatim>\<open>ESC [ 3\<close> has been written to a terminal created empty, the
  buffer holds that incomplete sequence. The chunk \<^verbatim>\<open>1m\<close>, which has no control character
  and no \<^verbatim>\<open>ESC\<close>, completes it to \<^verbatim>\<open>ESC [ 3 1 m\<close>, and the active SGR changes from empty to
  foreground 1.
\<close>

theorem pending_sequence_counterexample:
  "list_all (\<lambda>c. 32 \<le> (of_char c :: nat)) ''1m''
   \<and> incompleteSequence (fst (StreamingTerminal_write None new_StreamingTerminal (ESC # ''[3'')))
       = ESC # ''[3''
   \<and> activeSgr (fst (StreamingTerminal_write None new_StreamingTerminal (ESC # ''[3'')))
       = sgr_empty
   \<and> activeSgr (fst (StreamingTerminal_write None
                  (fst (StreamingTerminal_write None new_StreamingTerminal (ESC # ''[3'')))
                  ''1m''))
       = sgr_empty\<lparr>fg := Some 1\<rparr>"
  by code_simp

text \<open>
  C6, as amended. For every terminal state whose incomplete-sequence buffer is empty, every
  line-ready callback and every chunk of characters from \<open>0x20\<close> on (no control character,
  hence no \<^verbatim>\<open>ESC\<close>), \<^verbatim>\<open>write\<close> leaves the active SGR and the saved cursor unchanged.
\<close>

theorem pure_text_frame:
  assumes "incompleteSequence t = []"
    and "list_all (\<lambda>c. 32 \<le> (of_char c :: nat)) chunk"
  shows "activeSgr (fst (StreamingTerminal_write cb t chunk)) = activeSgr t
         \<and> savedCursor (fst (StreamingTerminal_write cb t chunk)) = savedCursor t"
  using write_loop_text_frame[OF assms(2), of cb "(t\<lparr>incompleteSequence := []\<rparr>, snd (StreamingTerminal_write cb t chunk))"] assms(1)
  by (simp add: fst_write[of cb t chunk "snd (StreamingTerminal_write cb t chunk)"])

theorem pure_text_frame_witness:
  "incompleteSequence new_StreamingTerminal = []
   \<and> list_all (\<lambda>c. 32 \<le> (of_char c :: nat)) ''hello [31m''
   \<and> activeSgr (fst (StreamingTerminal_write None new_StreamingTerminal ''hello [31m''))
       = activeSgr new_StreamingTerminal
   \<and> savedCursor (fst (StreamingTerminal_write None new_StreamingTerminal ''hello [31m''))
       = savedCursor new_StreamingTerminal"
  using pure_text_frame[of new_StreamingTerminal "''hello [31m''" None]
  by (simp add: new_StreamingTerminal_def)

section \<open>SGR 0\<close>









section \<open>dispose, the erase scenario and renderLine\<close>

text \<open>
  C7, counterexample. After \<^verbatim>\<open>ABC\<close> has been written to a terminal created empty,
  \<^verbatim>\<open>dispose\<close> leaves the cursor at 3: the state is not the one of a terminal created empty.
\<close>

theorem dispose_keeps_cursor_counterexample:
  "cursor (dispose (fst (StreamingTerminal_write None new_StreamingTerminal ''ABC''))) = 3
   \<and> dispose (fst (StreamingTerminal_write None new_StreamingTerminal ''ABC''))
       \<noteq> new_StreamingTerminal"
  by code_simp

text \<open>
  C7, as amended. For every terminal state, \<^verbatim>\<open>dispose\<close> clears the cells, the active SGR
  and the incomplete-sequence buffer, and leaves the cursor and the saved cursor as they
  are; the terminal is back in its created-empty state exactly when the cursor and the
  saved cursor were 0 already.
\<close>

theorem dispose_clears:
  "cells (dispose t) = [] \<and> activeSgr (dispose t) = sgr_empty
   \<and> incompleteSequence (dispose t) = []
   \<and> cursor (dispose t) = cursor t \<and> savedCursor (dispose t) = savedCursor t
   \<and> ((dispose s = new_StreamingTerminal) = (cursor s = 0 \<and> savedCursor s = 0))"
  by (cases s) (auto simp add: dispose_def new_StreamingTerminal_def)

text \<open>
  C8. From a terminal created empty, writing \<^verbatim>\<open>ABCDEFGH\<close>, then \<^verbatim>\<open>ESC [ 5 G\<close>, then
  \<^verbatim>\<open>ESC [ 1 K\<close> and a newline gives the line of five spaces and \<^verbatim>\<open>FGH\<close>, of length 8. The
  cells 0 to 4, the cursor position 4 among them, are empty, and the cursor is still 4;
  the erase from start to cursor never moves the cursor.
\<close>

theorem erase_start_to_cursor:
  "fst (renderLine (fst (StreamingTerminal_write None
          (fst (StreamingTerminal_write None
                  (fst (StreamingTerminal_write None new_StreamingTerminal ''ABCDEFGH''))
                  (ESC # ''[5G'')))
          (ESC # ''[1K'' @ [LF]))))
     = ''     FGH''
   \<and> length (fst (renderLine (fst (StreamingTerminal_write None
          (fst (StreamingTerminal_write None
                  (fst (StreamingTerminal_write None new_StreamingTerminal ''ABCDEFGH''))
                  (ESC # ''[5G'')))
          (ESC # ''[1K'' @ [LF]))))) = 8
   \<and> cells (fst (StreamingTerminal_write None
          (fst (StreamingTerminal_write None
                  (fst (StreamingTerminal_write None new_StreamingTerminal ''ABCDEFGH''))
                  (ESC # ''[5G'')))
          (ESC # ''[1K'' @ [LF])))
     = [None, None, None, None, None,
        Some \<lparr>char = CHR ''F'', sgr = sgr_empty\<rparr>,
        Some \<lparr>char = CHR ''G'', sgr = sgr_empty\<rparr>,
        Some \<lparr>char = CHR ''H'', sgr = sgr_empty\<rparr>]
   \<and> cursor (fst (StreamingTerminal_write None
          (fst (StreamingTerminal_write None
                  (fst (StreamingTerminal_write None new_StreamingTerminal ''ABCDEFGH''))
                  (ESC # ''[5G'')))
          (ESC # ''[1K'' @ [LF]))) = 4
   \<and> cursor (csi_switch (CHR ''K'') [1] t) = cursor t"
proof -
  have "cursor (csi_switch (CHR ''K'') [1] t) = cursor t"
    by (simp add: csi_switch_def param0_or_def)
  moreover have "fst (renderLine (fst (StreamingTerminal_write None
          (fst (StreamingTerminal_write None
                  (fst (StreamingTerminal_write None new_StreamingTerminal ''ABCDEFGH''))
                  (ESC # ''[5G'')))
          (ESC # ''[1K'' @ [LF]))))
     = ''     FGH''"
    by code_simp
  moreover have "cells (fst (StreamingTerminal_write None
          (fst (StreamingTerminal_write None
                  (fst (StreamingTerminal_write None new_StreamingTerminal ''ABCDEFGH''))
                  (ESC # ''[5G'')))
          (ESC # ''[1K'' @ [LF])))
     = [None, None, None, None, None,
        Some \<lparr>char = CHR ''F'', sgr = sgr_empty\<rparr>,
        Some \<lparr>char = CHR ''G'', sgr = sgr_empty\<rparr>,
        Some \<lparr>char = CHR ''H'', sgr = sgr_empty\<rparr>]"
    by code_simp
  moreover have "cursor (fst (StreamingTerminal_write None
          (fst (StreamingTerminal_write None
                  (fst (StreamingTerminal_write None new_StreamingTerminal ''ABCDEFGH''))
                  (ESC # ''[5G'')))
          (ESC # ''[1K'' @ [LF]))) = 4"
    by code_simp
  ultimately show ?thesis by simp
qed

text \<open>
  C10. For every terminal state, \<^verbatim>\<open>renderLine\<close> leaves the state as it is, with its cells,
  cursor, active SGR, saved cursor and incomplete-sequence buffer, and a second call right
  after the first returns the same string.
\<close>

theorem renderLine_observer:
  "snd (renderLine t) = t
   \<and> cells (snd (renderLine t)) = cells t
   \<and> cursor (snd (renderLine t)) = cursor t
   \<and> activeSgr (snd (renderLine t)) = activeSgr t
   \<and> savedCursor (snd (renderLine t)) = savedCursor t
   \<and> incompleteSequence (snd (renderLine t)) = incompleteSequence t
   \<and> fst (renderLine (snd (renderLine t))) = fst (renderLine t)"
  by (simp add: renderLine_def)

section \<open>The transform adapter\<close>

text \<open>
  C3. With the timeout strategy, the chunk \<^verbatim>\<open>abc\<close> and a newline makes \<^verbatim>\<open>_transform\<close>
  emit twice. The newline makes the terminal call the line-ready callback, which emits
  \<^verbatim>\<open>abc\<close> and resets the line. Then \<^verbatim>\<open>onWrite\<close> answers \<^verbatim>\<open>true\<close> because the chunk had a
  newline, and \<^verbatim>\<open>_transform\<close> emits the current line again although the terminal has no
  content: an empty line follows \<^verbatim>\<open>abc\<close>. At the end of the stream, \<^verbatim>\<open>_flush\<close> emits
  nothing for the same state, because it asks \<^verbatim>\<open>hasContent\<close> first.
\<close>

theorem transform_emits_without_content:
  "lineEvents (fst (StreamingTerminal_write (Some emitCurrentLine)
                      (new_TerminalTransform (TimeoutStrategy 100)) (''abc'' @ [LF])))
     = [''abc'']
   \<and> \<not> hasContent (fst (StreamingTerminal_write (Some emitCurrentLine)
                           (new_TerminalTransform (TimeoutStrategy 100)) (''abc'' @ [LF])))
   \<and> fst (onWrite (fst (StreamingTerminal_write (Some emitCurrentLine)
                           (new_TerminalTransform (TimeoutStrategy 100)) (''abc'' @ [LF])))
                   (snd (StreamingTerminal_write (Some emitCurrentLine)
                           (new_TerminalTransform (TimeoutStrategy 100)) (''abc'' @ [LF]))))
   \<and> lineEvents (TerminalTransform_transform (new_TerminalTransform (TimeoutStrategy 100))
                   (''abc'' @ [LF]))
       = [''abc'', []]
   \<and> pushed (TerminalTransform_transform (new_TerminalTransform (TimeoutStrategy 100))
               (''abc'' @ [LF]))
       = [''abc'' @ [LF], [LF]]
   \<and> lineEvents (TerminalTransform_flush
                   (fst (StreamingTerminal_write (Some emitCurrentLine)
                           (new_TerminalTransform (TimeoutStrategy 100)) (''abc'' @ [LF]))))
       = [''abc'']"
  by code_simp

end
